theory Spec2Isabelle
  imports Main "HOL-Library.Sublist"
begin

section \<open>Values, documents and prompt templates\<close>

text \<open>
  The notebook works on the records of a JSON file and on LangChain \<open>Document\<close> objects.
  A JSON value that occurs in the records and in the loader's metadata is a string, an
  integer (the loader's \<open>seq_num\<close>) or null; \<open>py_str\<close> is Python's \<open>str()\<close>, which
  is how \<open>str.format\<close> renders a value substituted for a template variable.
\<close>

datatype pyval = PyNone | PyStr string | PyInt int

fun digits :: "nat \<Rightarrow> string" where
  "digits n = (if n < 10 then [''0123456789'' ! n]
               else digits (n div 10) @ [''0123456789'' ! (n mod 10)])"

declare digits.simps [simp del]

fun py_str :: "pyval \<Rightarrow> string" where
  "py_str PyNone = ''None''"
| "py_str (PyStr s) = s"
| "py_str (PyInt i) = (if i < 0 then ''-'' @ digits (nat (- i)) else digits (nat i))"

text \<open>
  A \<open>Document\<close> has a textual body and a dictionary of metadata. A dictionary is a
  partial map from keys to values; \<open>k in d\<close> is \<open>d k \<noteq> None\<close>.
\<close>

record Document =
  page_content :: string
  metadata :: "string \<rightharpoonup> pyval"

text \<open>
  What the program prints on standard output, one constructor for each \<open>print\<close> of the
  notebook's functions, with the dictionary the message shows.
\<close>

datatype output_line =
    MissingName "string \<rightharpoonup> pyval"
  | MissingPageContent "string \<rightharpoonup> pyval"
  | SkippingDocument "string \<rightharpoonup> pyval"

text \<open>
  Exceptions: \<open>ValueError\<close> is raised by \<open>format_document\<close> with the template variables
  that the document does not provide, \<open>KeyError\<close> by formatting a template with a
  variable that has no value, and \<open>ExternalError\<close> stands for whatever a hosted service
  (the retriever, the language model) raises.
\<close>

datatype error = ValueError "string set" | KeyError string | ExternalError string

text \<open>
  A prompt template, as \<open>PromptTemplate.from_template\<close> parses an f-string template:
  literal text and variables \<open>{v}\<close> in turn.
\<close>

datatype piece = Lit string | Var string

type_synonym PromptTemplate = "piece list"

fun input_variables :: "PromptTemplate \<Rightarrow> string list" where
  "input_variables [] = []"
| "input_variables (Lit s # ps) = input_variables ps"
| "input_variables (Var v # ps) = v # input_variables ps"

text \<open>\<open>prompt.format(**kwargs)\<close>: every variable is replaced by the \<open>str()\<close> of its value.\<close>

fun format_prompt :: "PromptTemplate \<Rightarrow> (string \<rightharpoonup> pyval) \<Rightarrow> error + string" where
  "format_prompt [] kwargs = Inr []"
| "format_prompt (Lit s # ps) kwargs =
     (case format_prompt ps kwargs of Inl e \<Rightarrow> Inl e | Inr r \<Rightarrow> Inr (s @ r))"
| "format_prompt (Var v # ps) kwargs =
     (case kwargs v of
        None \<Rightarrow> Inl (KeyError v)
      | Some x \<Rightarrow> (case format_prompt ps kwargs of Inl e \<Rightarrow> Inl e | Inr r \<Rightarrow> Inr (py_str x @ r)))"

text \<open>
  \<open>format_document\<close> is the LangChain function the notebook imports from
  \<open>langchain.schema\<close>. It builds \<open>{"page_content": doc.page_content, **doc.metadata}\<close>
  (so a metadata entry named \<open>page_content\<close> takes the place of the body), raises
  \<open>ValueError\<close> when a variable of the template is not among its keys, and formats the
  template with the entries of the template's variables.
\<close>

definition base_info :: "Document \<Rightarrow> (string \<rightharpoonup> pyval)" where
  "base_info doc = [''page_content'' \<mapsto> PyStr (page_content doc)] ++ metadata doc"

definition format_document :: "Document \<Rightarrow> PromptTemplate \<Rightarrow> error + string" where
  "format_document doc prompt =
     (let info = base_info doc;
          missing_metadata = filter (\<lambda>v. info v = None) (input_variables prompt)
      in if missing_metadata \<noteq> [] then Inl (ValueError (set missing_metadata))
         else format_prompt prompt (info |` set (input_variables prompt)))"

text \<open>\<open>separator.join(strings)\<close>.\<close>

fun join :: "string \<Rightarrow> string list \<Rightarrow> string" where
  "join sep [] = []"
| "join sep [s] = s"
| "join sep (s # t # ts) = s @ sep @ join sep (t # ts)"

text \<open>
  A chat prompt template is a list of message templates, each with the role of its
  message. \<open>ChatPromptTemplate.from_template\<close> makes the template of one human message.
  Formatting gives the messages; a completion model, which takes a string, is sent the
  messages as \<open>get_buffer_string\<close> writes them: each message as its role, a colon, a
  space and its content, the messages joined by a newline.
\<close>

datatype role = Human | AI | System

type_synonym ChatPromptTemplate = "(role \<times> PromptTemplate) list"

definition from_template :: "PromptTemplate \<Rightarrow> ChatPromptTemplate" where
  "from_template template = [(Human, template)]"

fun format_messages ::
  "ChatPromptTemplate \<Rightarrow> (string \<rightharpoonup> pyval) \<Rightarrow> error + (role \<times> string) list" where
  "format_messages [] kwargs = Inr []"
| "format_messages ((r, template) # ms) kwargs =
     (case format_prompt template kwargs of
        Inl e \<Rightarrow> Inl e
      | Inr content \<Rightarrow>
          (case format_messages ms kwargs of
             Inl e \<Rightarrow> Inl e
           | Inr rest \<Rightarrow> Inr ((r, content) # rest)))"

fun role_name :: "role \<Rightarrow> string" where
  "role_name Human = ''Human''"
| "role_name AI = ''AI''"
| "role_name System = ''System''"

definition get_buffer_string :: "(role \<times> string) list \<Rightarrow> string" where
  "get_buffer_string messages =
     join ''\<newline>'' (map (\<lambda>(r, content). role_name r @ '': '' @ content) messages)"

text \<open>The two templates of the notebook, and the default separator \<open>"\n\n"\<close>.\<close>

definition LLM_CONTEXT_PROMPT :: ChatPromptTemplate where
  \<open>LLM_CONTEXT_PROMPT = from_template
     [Lit ''You are an assistant for question-answering tasks. Use the following pieces of retrieved context to answer the question. If you don't know the answer, just say that you don't know. Be as verbose and educational in your response as possible. \<newline>    \<newline>    context: '',
      Var ''context'',
      Lit ''\<newline>    Question: "'',
      Var ''question'',
      Lit ''"\<newline>    Answer:\<newline>    '']\<close>

definition LLM_DOCUMENT_PROMPT :: PromptTemplate where
  "LLM_DOCUMENT_PROMPT =
     [Lit ''\<newline>---\<newline>SOURCE: '', Var ''name'', Lit ''\<newline>'', Var ''page_content'',
      Lit ''\<newline>---\<newline>'']"

definition default_separator :: string where
  "default_separator = ''\<newline>\<newline>''"

section \<open>Ingestion: \<open>metadata_func\<close>\<close>

definition required_fields :: "string list" where
  "required_fields = [''name'', ''summary'', ''url'', ''category'', ''updated_at'']"

text \<open>\<open>record.get(k)\<close>: the value at \<open>k\<close>, or \<open>None\<close> when the key is absent.\<close>

definition get :: "(string \<rightharpoonup> pyval) \<Rightarrow> string \<Rightarrow> pyval" where
  "get d k = (case d k of None \<Rightarrow> PyNone | Some v \<Rightarrow> v)"

text \<open>
  \<open>metadata_func\<close> writes into the dictionary it is given and prints on standard output.
  The model returns the value returned (\<open>None\<close> of Python is \<open>None\<close> here), the
  dictionary \<open>metadata\<close> (here \<open>meta\<close>) as the call leaves it, and the output.
\<close>

definition metadata_func ::
  "(string \<rightharpoonup> pyval) \<Rightarrow> (string \<rightharpoonup> pyval) \<Rightarrow> output_line list
     \<Rightarrow> (string \<rightharpoonup> pyval) option \<times> (string \<rightharpoonup> pyval) \<times> output_line list" where
  "metadata_func record meta stdout =
     (if list_all (\<lambda>field. record field \<noteq> None) required_fields
      then
        let meta = meta(''name'' \<mapsto> get record ''name'');
            meta = meta(''summary'' \<mapsto> get record ''summary'');
            meta = meta(''url'' \<mapsto> get record ''url'');
            meta = meta(''category'' \<mapsto> get record ''category'');
            meta = meta(''updated_at'' \<mapsto> get record ''updated_at'')
        in (Some meta, meta, stdout)
      else (None, meta, stdout @ [SkippingDocument record]))"

section \<open>Context assembly: \<open>_combine_documents\<close>\<close>

text \<open>
  The \<open>for\<close> loop of \<open>_combine_documents\<close>, with the list \<open>doc_strings\<close> and the
  standard output as its state. An exception of \<open>format_document\<close> leaves the loop.
\<close>

fun combine_loop ::
  "PromptTemplate \<Rightarrow> Document list \<Rightarrow> string list \<Rightarrow> output_line list
     \<Rightarrow> (error + string list) \<times> output_line list" where
  "combine_loop document_prompt [] doc_strings stdout = (Inr doc_strings, stdout)"
| "combine_loop document_prompt (doc # docs) doc_strings stdout =
     (if metadata doc ''name'' = None
      then combine_loop document_prompt docs doc_strings (stdout @ [MissingName (metadata doc)])
      else if page_content doc = []
      then combine_loop document_prompt docs doc_strings
             (stdout @ [MissingPageContent (metadata doc)])
      else (case format_document doc document_prompt of
              Inl e \<Rightarrow> (Inl e, stdout)
            | Inr s \<Rightarrow> combine_loop document_prompt docs (doc_strings @ [s]) stdout))"

definition combine_documents ::
  "Document list \<Rightarrow> PromptTemplate \<Rightarrow> string \<Rightarrow> output_line list
     \<Rightarrow> (error + string) \<times> output_line list" where
  "combine_documents docs document_prompt document_separator stdout =
     (case combine_loop document_prompt docs [] stdout of
        (Inl e, stdout') \<Rightarrow> (Inl e, stdout')
      | (Inr doc_strings, stdout') \<Rightarrow> (Inr (join document_separator doc_strings), stdout'))"

section \<open>The chain\<close>

text \<open>
  \<open>chain = _context | LLM_CONTEXT_PROMPT | llm\<close>, where \<open>_context\<close> maps the question to
  the dictionary with \<open>context = (retriever | _combine_documents)\<close> of the question and
  \<open>question\<close> the question itself. The retriever and the language model are hosted
  services: they are parameters, and each may raise. \<open>_combine_documents\<close> runs with its
  default template and separator. The language model is the completion model \<open>OpenAI\<close>,
  the only model class the notebook imports; it is sent the chat prompt as a string.
\<close>

definition chain ::
  "(string \<Rightarrow> error + Document list) \<Rightarrow> (string \<Rightarrow> error + string) \<Rightarrow> string
     \<Rightarrow> output_line list \<Rightarrow> (error + string) \<times> output_line list" where
  "chain retriever llm question stdout =
     (case retriever question of
        Inl e \<Rightarrow> (Inl e, stdout)
      | Inr docs \<Rightarrow>
          (case combine_documents docs LLM_DOCUMENT_PROMPT default_separator stdout of
             (Inl e, stdout') \<Rightarrow> (Inl e, stdout')
           | (Inr context, stdout') \<Rightarrow>
               (case format_messages LLM_CONTEXT_PROMPT
                       [''context'' \<mapsto> PyStr context, ''question'' \<mapsto> PyStr question] of
                  Inl e \<Rightarrow> (Inl e, stdout')
                | Inr messages \<Rightarrow> (llm (get_buffer_string messages), stdout'))))"

section \<open>Properties\<close>

text \<open>A document passes the two checks of \<open>_combine_documents\<close>.\<close>

definition passes_validation :: "Document \<Rightarrow> bool" where
  "passes_validation doc = (metadata doc ''name'' \<noteq> None \<and> page_content doc \<noteq> [])"

text \<open>The results of a list of calls, up to the first exception.\<close>

fun first_error :: "(error + 'a) list \<Rightarrow> error + 'a list" where
  "first_error [] = Inr []"
| "first_error (Inl e # rs) = Inl e"
| "first_error (Inr x # rs) = (case first_error rs of Inl e \<Rightarrow> Inl e | Inr xs \<Rightarrow> Inr (x # xs))"

text \<open>
  What \<open>format_document\<close> makes of a document with the template
  \<open>LLM_DOCUMENT_PROMPT\<close>: the source label with the document's name, then the entry
  \<open>page_content\<close> of \<open>base_info\<close>, which is the metadata entry of that name when the
  document has one and the body otherwise.
\<close>

definition document_text :: "Document \<Rightarrow> string" where
  "document_text d = ''\<newline>---\<newline>SOURCE: '' @ py_str (get (metadata d) ''name'') @ ''\<newline>''
      @ py_str (get (base_info d) ''page_content'') @ ''\<newline>---\<newline>''"

text \<open>Two documents have the same body and the same entry \<open>name\<close>, or both have none.\<close>

definition same_name_and_content :: "Document \<Rightarrow> Document \<Rightarrow> bool" where
  "same_name_and_content a b =
     (page_content a = page_content b \<and> metadata a ''name'' = metadata b ''name'')"

section \<open>The loop and the join\<close>

lemma combine_loop_fst:
  "fst (combine_loop p docs acc out) =
     (case first_error (map (\<lambda>d. format_document d p) (filter passes_validation docs)) of
        Inl e \<Rightarrow> Inl e | Inr ss \<Rightarrow> Inr (acc @ ss))"
proof (induction docs arbitrary: acc out)
  case Nil
  show ?case by simp
next
  case (Cons d ds)
  show ?case
  proof (cases "passes_validation d")
    case False
    then show ?thesis using Cons.IH by (auto simp: passes_validation_def)
  next
    case True
    then show ?thesis using Cons.IH
      by (cases "format_document d p") (auto simp: passes_validation_def split: sum.splits)
  qed
qed

lemma combine_documents_fst:
  "fst (combine_documents docs p sep out) =
     map_sum id (join sep) (first_error (map (\<lambda>d. format_document d p) (filter passes_validation docs)))"
proof -
  obtain r out' where c: "combine_loop p docs [] out = (r, out')" by (cases "combine_loop p docs [] out")
  have "r = (case first_error (map (\<lambda>d. format_document d p) (filter passes_validation docs)) of
        Inl e \<Rightarrow> Inl e | Inr ss \<Rightarrow> Inr ss)"
    using combine_loop_fst [of p docs "[]" out] c by (simp split: sum.splits)
  then show ?thesis
    by (simp add: combine_documents_def c split: sum.splits)
qed

lemma format_document_default:
  assumes "metadata d ''name'' = Some n"
  shows "format_document d LLM_DOCUMENT_PROMPT =
     Inr (''\<newline>---\<newline>SOURCE: '' @ py_str n @ ''\<newline>'' @ py_str (get (base_info d) ''page_content'') @ ''\<newline>---\<newline>'')"
  using assms
  by (auto simp: format_document_def LLM_DOCUMENT_PROMPT_def base_info_def get_def map_add_def restrict_map_def split: option.splits)

lemma first_error_append:
  "first_error (rs @ rs') =
     (case first_error rs of Inl e \<Rightarrow> Inl e
      | Inr xs \<Rightarrow> (case first_error rs' of Inl e \<Rightarrow> Inl e | Inr ys \<Rightarrow> Inr (xs @ ys)))"
proof (induction rs)
  case Nil
  show ?case by (simp split: sum.splits)
next
  case (Cons r rs)
  then show ?case by (cases r) (simp_all split: sum.splits)
qed

lemma first_error_length: "first_error rs = Inr xs \<Longrightarrow> length xs = length rs"
proof (induction rs arbitrary: xs)
  case Nil
  then show ?case by simp
next
  case (Cons r rs)
  then show ?case by (cases r) (auto split: sum.splits)
qed

lemma join_Cons: "join sep (x # xs) = x @ (if xs = [] then [] else sep @ join sep xs)"
  by (cases xs) simp_all

lemma join_append:
  "as \<noteq> [] \<Longrightarrow> bs \<noteq> [] \<Longrightarrow> join sep (as @ bs) = join sep as @ sep @ join sep bs"
proof (induction as)
  case Nil
  then show ?case by simp
next
  case (Cons a as)
  then show ?case by (cases as) (simp_all add: join_Cons)
qed

lemma join_snoc: "join sep (xs @ [x]) = (if xs = [] then [] else join sep xs @ sep) @ x"
  using join_append [of xs "[x]" sep] by (cases "xs = []") simp_all

lemma join_length:
  assumes "ss \<noteq> []"
  shows "length (join sep ss) + length sep = sum_list (map length ss) + length ss * length sep"
  using assms
proof (induction ss)
  case Nil
  then show ?case by simp
next
  case (Cons s ss)
  then show ?case by (cases "ss = []") (simp_all add: join_Cons)
qed

lemma join_length':
  "length (join sep ss) = sum_list (map length ss) + (length ss - 1) * length sep"
proof (cases "ss = []")
  case True
  then show ?thesis by simp
next
  case False
  then obtain n where n: "length ss = Suc n" by (cases ss) auto
  from join_length [OF False, of sep] show ?thesis by (simp add: n)
qed

lemma append_law:
  assumes "\<exists>d\<in>set xs. passes_validation d" "\<exists>d\<in>set ys. passes_validation d"
    and "fst (combine_documents xs p sep out1) = Inr a"
    and "fst (combine_documents ys p sep out2) = Inr b"
  shows "fst (combine_documents (xs @ ys) p sep out3) = Inr (a @ sep @ b)"
proof -
  let ?f = "\<lambda>zs. first_error (map (\<lambda>d. format_document d p) (filter passes_validation zs))"
  from assms(3) obtain as where as: "?f xs = Inr as" "a = join sep as"
    by (cases "?f xs") (auto simp: combine_documents_fst)
  from assms(4) obtain bs where bs: "?f ys = Inr bs" "b = join sep bs"
    by (cases "?f ys") (auto simp: combine_documents_fst)
  have "as \<noteq> []" using first_error_length [OF as(1)] assms(1) by (auto simp: filter_empty_conv)
  moreover have "bs \<noteq> []" using first_error_length [OF bs(1)] assms(2) by (auto simp: filter_empty_conv)
  moreover have "?f (xs @ ys) = Inr (as @ bs)"
    using as(1) bs(1) by (simp add: first_error_append)
  ultimately show ?thesis
    by (simp add: combine_documents_fst as(2) bs(2) join_append)
qed

lemma pieces_law:
  assumes "fst (combine_documents docs p sep out) = Inr s"
  shows "\<exists>ss. first_error (map (\<lambda>d. format_document d p) (filter passes_validation docs)) = Inr ss
            \<and> s = join sep ss \<and> length ss = length (filter passes_validation docs)
            \<and> length s = sum_list (map length ss) + (length ss - 1) * length sep"
proof -
  let ?r = "first_error (map (\<lambda>d. format_document d p) (filter passes_validation docs))"
  from assms obtain ss where ss: "?r = Inr ss" "s = join sep ss"
    by (cases ?r) (auto simp: combine_documents_fst)
  from first_error_length [OF ss(1)] have "length ss = length (filter passes_validation docs)" by simp
  with ss show ?thesis by (simp add: join_length')
qed


lemma format_document_valid:
  "passes_validation d \<Longrightarrow> format_document d LLM_DOCUMENT_PROMPT = Inr (document_text d)"
  by (auto simp: passes_validation_def document_text_def format_document_default get_def)

lemma first_error_default:
  "first_error (map (\<lambda>d. format_document d LLM_DOCUMENT_PROMPT) (filter passes_validation docs))
     = Inr (map document_text (filter passes_validation docs))"
  by (induction docs) (simp_all add: format_document_valid)

lemma combine_default:
  "fst (combine_documents docs LLM_DOCUMENT_PROMPT sep out)
     = Inr (join sep (map document_text (filter passes_validation docs)))"
  by (simp add: combine_documents_fst first_error_default)

lemma no_leading_separator:
  assumes "ss \<noteq> []"
  shows "\<not> prefix default_separator (join default_separator (map document_text ss))"
proof -
  obtain d ds where "ss = d # ds" using assms by (cases ss) auto
  then show ?thesis
    by (simp add: join_Cons document_text_def default_separator_def)
qed

lemma no_trailing_separator:
  assumes "ss \<noteq> []"
  shows "\<not> suffix default_separator (join default_separator (map document_text ss))"
proof -
  obtain ds d where "ss = ds @ [d]" using assms by (cases ss rule: rev_cases) auto
  then show ?thesis
    by (simp add: join_snoc document_text_def default_separator_def suffix_to_prefix)
qed

lemma format_context_prompt:
  \<open>map_sum id get_buffer_string
     (format_messages LLM_CONTEXT_PROMPT [''context'' \<mapsto> PyStr c, ''question'' \<mapsto> PyStr q]) =
     Inr (''Human: You are an assistant for question-answering tasks. Use the following pieces of retrieved context to answer the question. If you don't know the answer, just say that you don't know. Be as verbose and educational in your response as possible. \<newline>    \<newline>    context: ''
          @ c @ ''\<newline>    Question: "'' @ q @ ''"\<newline>    Answer:\<newline>    '')\<close>
  by (simp add: LLM_CONTEXT_PROMPT_def from_template_def get_buffer_string_def)

lemma join_concat:
  "join sep ts = (case ts of [] \<Rightarrow> [] | t # us \<Rightarrow> t @ concat (map (\<lambda>u. sep @ u) us))"
proof (induction ts)
  case Nil
  show ?case by simp
next
  case (Cons t ts)
  then show ?case by (cases ts) (simp_all add: join_Cons)
qed

lemma document_text_explicit:
  assumes "passes_validation d"
  shows "document_text d =
     ''\<newline>---\<newline>SOURCE: '' @ py_str (the (metadata d ''name'')) @ ''\<newline>''
       @ (case metadata d ''page_content'' of None \<Rightarrow> page_content d | Some v \<Rightarrow> py_str v)
       @ ''\<newline>---\<newline>''"
  using assms
  by (auto simp: passes_validation_def document_text_def get_def base_info_def map_add_def
      split: option.splits)

lemma valid_texts_explicit:
  "map document_text (filter passes_validation docs) =
     map (\<lambda>d. ''\<newline>---\<newline>SOURCE: '' @ py_str (the (metadata d ''name'')) @ ''\<newline>''
            @ (case metadata d ''page_content'' of None \<Rightarrow> page_content d | Some v \<Rightarrow> py_str v)
            @ ''\<newline>---\<newline>'')
       (filter passes_validation docs)"
  by (rule map_cong) (simp_all add: document_text_explicit)

lemma no_valid_document:
  assumes "list_all (\<lambda>d. \<not> passes_validation d) docs"
  shows "fst (combine_documents docs p sep out) = Inr []"
proof -
  from assms have "filter passes_validation docs = []"
    by (simp add: filter_empty_conv list_all_iff)
  then show ?thesis by (simp add: combine_documents_fst)
qed

lemma all_fields_present:
  "list_all (\<lambda>field. record field \<noteq> None) required_fields
     \<longleftrightarrow> {''name'', ''summary'', ''url'', ''category'', ''updated_at''} \<subseteq> dom record"
  by (auto simp: required_fields_def)

lemma populated:
  assumes "{''name'', ''summary'', ''url'', ''category'', ''updated_at''} \<subseteq> dom record"
  shows "meta(''name'' \<mapsto> get record ''name'', ''summary'' \<mapsto> get record ''summary'',
              ''url'' \<mapsto> get record ''url'', ''category'' \<mapsto> get record ''category'',
              ''updated_at'' \<mapsto> get record ''updated_at'')
         = (\<lambda>k. if k \<in> {''name'', ''summary'', ''url'', ''category'', ''updated_at''}
                 then record k else meta k)"
proof
  fix k
  from assms have "record ''name'' = Some (get record ''name'')"
    "record ''summary'' = Some (get record ''summary'')"
    "record ''url'' = Some (get record ''url'')"
    "record ''category'' = Some (get record ''category'')"
    "record ''updated_at'' = Some (get record ''updated_at'')"
    by (auto simp: get_def)
  then show "(meta(''name'' \<mapsto> get record ''name'', ''summary'' \<mapsto> get record ''summary'',
              ''url'' \<mapsto> get record ''url'', ''category'' \<mapsto> get record ''category'',
              ''updated_at'' \<mapsto> get record ''updated_at'')) k
         = (if k \<in> {''name'', ''summary'', ''url'', ''category'', ''updated_at''}
                 then record k else meta k)"
    by simp
qed

lemma agree_document_text:
  assumes "same_name_and_content a b" "metadata a ''page_content'' = metadata b ''page_content''"
  shows "document_text a = document_text b" "passes_validation a = passes_validation b"
  using assms
  by (simp_all add: same_name_and_content_def document_text_def passes_validation_def get_def
      base_info_def map_add_def)

lemma agree_valid_texts:
  assumes "list_all2 (\<lambda>a b. same_name_and_content a b
             \<and> metadata a ''page_content'' = metadata b ''page_content'') xs ys"
  shows "map document_text (filter passes_validation xs)
       = map document_text (filter passes_validation ys)"
  using assms
proof (induction rule: list_all2_induct)
  case Nil
  show ?case by simp
next
  case (Cons a xs b ys)
  then show ?case using agree_document_text [of a b] by auto
qed

section \<open>Ingestion is all or nothing\<close>

text \<open>
  Claim C8. \<open>metadata_func\<close> returns the metadata dictionary with the five entries
  \<open>name\<close>, \<open>summary\<close>, \<open>url\<close>, \<open>category\<close> and \<open>updated_at\<close> copied from the
  record, and every other entry of the dictionary as it was, exactly when the record has
  all five keys. When any of the five is absent it returns \<open>None\<close>, leaves the
  dictionary as it was and prints the record. So a dictionary that is returned always has
  all five keys.
\<close>

theorem metadata_func_all_or_nothing:
  "({''name'', ''summary'', ''url'', ''category'', ''updated_at''} \<subseteq> dom record \<longrightarrow>
      metadata_func record meta out =
        (Some (\<lambda>k. if k \<in> {''name'', ''summary'', ''url'', ''category'', ''updated_at''}
                    then record k else meta k),
         (\<lambda>k. if k \<in> {''name'', ''summary'', ''url'', ''category'', ''updated_at''}
                    then record k else meta k),
         out))
   \<and> (\<not> {''name'', ''summary'', ''url'', ''category'', ''updated_at''} \<subseteq> dom record \<longrightarrow>
      metadata_func record meta out = (None, meta, out @ [SkippingDocument record]))
   \<and> (\<forall>m. fst (metadata_func record meta out) = Some m \<longrightarrow>
        {''name'', ''summary'', ''url'', ''category'', ''updated_at''} \<subseteq> dom m)"
proof (intro conjI impI allI)
  assume a: "{''name'', ''summary'', ''url'', ''category'', ''updated_at''} \<subseteq> dom record"
  then show "metadata_func record meta out =
        (Some (\<lambda>k. if k \<in> {''name'', ''summary'', ''url'', ''category'', ''updated_at''}
                    then record k else meta k),
         (\<lambda>k. if k \<in> {''name'', ''summary'', ''url'', ''category'', ''updated_at''}
                    then record k else meta k),
         out)"
    unfolding metadata_func_def all_fields_present Let_def
    by (simp only: if_True populated [OF a])
next
  assume "\<not> {''name'', ''summary'', ''url'', ''category'', ''updated_at''} \<subseteq> dom record"
  then show "metadata_func record meta out = (None, meta, out @ [SkippingDocument record])"
    unfolding metadata_func_def all_fields_present by (simp only: if_False)
next
  fix m
  assume "fst (metadata_func record meta out) = Some m"
  then show "{''name'', ''summary'', ''url'', ''category'', ''updated_at''} \<subseteq> dom m"
    unfolding metadata_func_def all_fields_present Let_def
    by (auto split: if_splits)
qed

theorem metadata_func_all_or_nothing_witness:
  "{''name'', ''summary'', ''url'', ''category'', ''updated_at''}
      \<subseteq> dom [''name'' \<mapsto> PyStr ''Tax'', ''summary'' \<mapsto> PyStr ''s'', ''url'' \<mapsto> PyStr ''u'',
              ''category'' \<mapsto> PyStr ''c'', ''updated_at'' \<mapsto> PyNone, ''content'' \<mapsto> PyStr ''x'']
   \<and> fst (metadata_func
        [''name'' \<mapsto> PyStr ''Tax'', ''summary'' \<mapsto> PyStr ''s'', ''url'' \<mapsto> PyStr ''u'',
         ''category'' \<mapsto> PyStr ''c'', ''updated_at'' \<mapsto> PyNone, ''content'' \<mapsto> PyStr ''x'']
        [''seq_num'' \<mapsto> PyInt 1] []) \<noteq> None
   \<and> the (fst (metadata_func
        [''name'' \<mapsto> PyStr ''Tax'', ''summary'' \<mapsto> PyStr ''s'', ''url'' \<mapsto> PyStr ''u'',
         ''category'' \<mapsto> PyStr ''c'', ''updated_at'' \<mapsto> PyNone, ''content'' \<mapsto> PyStr ''x'']
        [''seq_num'' \<mapsto> PyInt 1] [])) ''updated_at'' = Some PyNone
   \<and> the (fst (metadata_func
        [''name'' \<mapsto> PyStr ''Tax'', ''summary'' \<mapsto> PyStr ''s'', ''url'' \<mapsto> PyStr ''u'',
         ''category'' \<mapsto> PyStr ''c'', ''updated_at'' \<mapsto> PyNone, ''content'' \<mapsto> PyStr ''x'']
        [''seq_num'' \<mapsto> PyInt 1] [])) ''seq_num'' = Some (PyInt 1)
   \<and> the (fst (metadata_func
        [''name'' \<mapsto> PyStr ''Tax'', ''summary'' \<mapsto> PyStr ''s'', ''url'' \<mapsto> PyStr ''u'',
         ''category'' \<mapsto> PyStr ''c'', ''updated_at'' \<mapsto> PyNone, ''content'' \<mapsto> PyStr ''x'']
        [''seq_num'' \<mapsto> PyInt 1] [])) ''content'' = None
   \<and> \<not> {''name'', ''summary'', ''url'', ''category'', ''updated_at''}
      \<subseteq> dom [''name'' \<mapsto> PyStr ''Tax'', ''summary'' \<mapsto> PyStr ''s'', ''category'' \<mapsto> PyStr ''c'',
              ''updated_at'' \<mapsto> PyStr ''2020'']
   \<and> metadata_func
        [''name'' \<mapsto> PyStr ''Tax'', ''summary'' \<mapsto> PyStr ''s'', ''category'' \<mapsto> PyStr ''c'',
         ''updated_at'' \<mapsto> PyStr ''2020'']
        [''seq_num'' \<mapsto> PyInt 2] []
      = (None, [''seq_num'' \<mapsto> PyInt 2],
         [SkippingDocument [''name'' \<mapsto> PyStr ''Tax'', ''summary'' \<mapsto> PyStr ''s'',
            ''category'' \<mapsto> PyStr ''c'', ''updated_at'' \<mapsto> PyStr ''2020'']])"
proof -
  let ?full = "[''name'' \<mapsto> PyStr ''Tax'', ''summary'' \<mapsto> PyStr ''s'', ''url'' \<mapsto> PyStr ''u'',
         ''category'' \<mapsto> PyStr ''c'', ''updated_at'' \<mapsto> PyNone, ''content'' \<mapsto> PyStr ''x'']"
  let ?part = "[''name'' \<mapsto> PyStr ''Tax'', ''summary'' \<mapsto> PyStr ''s'', ''category'' \<mapsto> PyStr ''c'',
         ''updated_at'' \<mapsto> PyStr ''2020'']"
  have f: "{''name'', ''summary'', ''url'', ''category'', ''updated_at''} \<subseteq> dom ?full"
    by simp
  have p: "\<not> {''name'', ''summary'', ''url'', ''category'', ''updated_at''} \<subseteq> dom ?part"
    by simp
  from f metadata_func_all_or_nothing [of ?full "[''seq_num'' \<mapsto> PyInt 1]" "[]"]
  have 1: "metadata_func ?full [''seq_num'' \<mapsto> PyInt 1] [] =
        (Some (\<lambda>k. if k \<in> {''name'', ''summary'', ''url'', ''category'', ''updated_at''}
                    then ?full k else [''seq_num'' \<mapsto> PyInt 1] k),
         (\<lambda>k. if k \<in> {''name'', ''summary'', ''url'', ''category'', ''updated_at''}
                    then ?full k else [''seq_num'' \<mapsto> PyInt 1] k),
         [])"
    by blast
  from p metadata_func_all_or_nothing [of ?part "[''seq_num'' \<mapsto> PyInt 2]" "[]"]
  have 2: "metadata_func ?part [''seq_num'' \<mapsto> PyInt 2] []
      = (None, [''seq_num'' \<mapsto> PyInt 2], [] @ [SkippingDocument ?part])"
    by blast
  show ?thesis
    unfolding 1 2 using f p by simp
qed

section \<open>The context block\<close>

text \<open>
  Claim C1, as stated, fails: the instantiation of the template is not always the source
  label and the body. \<open>format_document\<close> lets a metadata entry named \<open>page_content\<close> take
  the place of the body, so a document that passes both checks and has such an entry is
  shown with that entry, and its body is not in the result.
\<close>

theorem combine_documents_body_counterexample:
  "passes_validation
     \<lparr>page_content = ''Body text'',
        metadata = [''name'' \<mapsto> PyStr ''Tax'', ''page_content'' \<mapsto> PyStr ''Other text'']\<rparr>
   \<and> fst (combine_documents
          [\<lparr>page_content = ''Body text'',
              metadata = [''name'' \<mapsto> PyStr ''Tax'', ''page_content'' \<mapsto> PyStr ''Other text'']\<rparr>]
          LLM_DOCUMENT_PROMPT default_separator [])
       = Inr ''\<newline>---\<newline>SOURCE: Tax\<newline>Other text\<newline>---\<newline>''
   \<and> fst (combine_documents
          [\<lparr>page_content = ''Body text'',
              metadata = [''name'' \<mapsto> PyStr ''Tax'', ''page_content'' \<mapsto> PyStr ''Other text'']\<rparr>]
          LLM_DOCUMENT_PROMPT default_separator [])
       \<noteq> Inr ''\<newline>---\<newline>SOURCE: Tax\<newline>Body text\<newline>---\<newline>''"
  by (simp add: passes_validation_def combine_documents_def format_document_def
      LLM_DOCUMENT_PROMPT_def base_info_def map_add_def restrict_map_def)

text \<open>
  Claim C1, amended. The result of \<open>_combine_documents\<close> is made of the instantiations of
  the template for the documents that have a \<open>name\<close> and a non-empty body, in the order
  of the list: the first of them, then each later one after a separator. With
  \<open>LLM_DOCUMENT_PROMPT\<close> an instantiation is the source label with the name, then the
  body, or the metadata entry \<open>page_content\<close> in place of the body when the document has
  one; no exception is raised. With any template, the instantiations are those of
  \<open>format_document\<close>, up to its first exception on such a document. A document without a
  \<open>name\<close> or with an empty body is skipped: the result, an exception included, is that of
  the list without it.
\<close>

theorem combine_documents_valid_only:
  "fst (combine_documents docs p sep out) =
     map_sum id (\<lambda>ts. case ts of [] \<Rightarrow> [] | t # us \<Rightarrow> t @ concat (map (\<lambda>u. sep @ u) us))
       (first_error (map (\<lambda>d. format_document d p) (filter passes_validation docs)))
   \<and> fst (combine_documents docs LLM_DOCUMENT_PROMPT sep out) =
       Inr (case map (\<lambda>d. ''\<newline>---\<newline>SOURCE: '' @ py_str (the (metadata d ''name'')) @ ''\<newline>''
                        @ (case metadata d ''page_content'' of
                             None \<Rightarrow> page_content d | Some v \<Rightarrow> py_str v)
                        @ ''\<newline>---\<newline>'')
                   (filter passes_validation docs) of
              [] \<Rightarrow> []
            | t # us \<Rightarrow> t @ concat (map (\<lambda>u. sep @ u) us))
   \<and> (\<not> passes_validation d \<longrightarrow>
        fst (combine_documents (xs @ d # ys) p sep out) = fst (combine_documents (xs @ ys) p sep out))"
proof (intro conjI impI)
  have "map_sum id (join sep) r =
      map_sum id (\<lambda>ts. case ts of [] \<Rightarrow> [] | t # us \<Rightarrow> t @ concat (map (\<lambda>u. sep @ u) us)) r"
    for r :: "error + string list"
    by (cases r) (simp_all add: join_concat)
  then show "fst (combine_documents docs p sep out) =
     map_sum id (\<lambda>ts. case ts of [] \<Rightarrow> [] | t # us \<Rightarrow> t @ concat (map (\<lambda>u. sep @ u) us))
       (first_error (map (\<lambda>d. format_document d p) (filter passes_validation docs)))"
    by (simp add: combine_documents_fst)
  have "fst (combine_documents docs LLM_DOCUMENT_PROMPT sep out) =
      Inr (join sep (map document_text (filter passes_validation docs)))"
    by (rule combine_default)
  then show "fst (combine_documents docs LLM_DOCUMENT_PROMPT sep out) =
       Inr (case map (\<lambda>d. ''\<newline>---\<newline>SOURCE: '' @ py_str (the (metadata d ''name'')) @ ''\<newline>''
                        @ (case metadata d ''page_content'' of
                             None \<Rightarrow> page_content d | Some v \<Rightarrow> py_str v)
                        @ ''\<newline>---\<newline>'')
                   (filter passes_validation docs) of
              [] \<Rightarrow> []
            | t # us \<Rightarrow> t @ concat (map (\<lambda>u. sep @ u) us))"
    by (simp only: valid_texts_explicit join_concat [of sep])
  show "fst (combine_documents (xs @ d # ys) p sep out) = fst (combine_documents (xs @ ys) p sep out)"
    if "\<not> passes_validation d"
    using that by (simp add: combine_documents_fst)
qed

theorem combine_documents_valid_only_witness:
  "\<not> passes_validation \<lparr>page_content = ''Onboarding steps'', metadata = [''seq_num'' \<mapsto> PyInt 15]\<rparr>
   \<and> fst (combine_documents
        ([\<lparr>page_content = ''Update the TD1 form.'', metadata = [''name'' \<mapsto> PyStr ''Tax'']\<rparr>]
          @ \<lparr>page_content = ''Onboarding steps'', metadata = [''seq_num'' \<mapsto> PyInt 15]\<rparr>
          # [\<lparr>page_content = [], metadata = [''name'' \<mapsto> PyStr ''Empty'']\<rparr>,
             \<lparr>page_content = ''Ask HR.'', metadata = [''name'' \<mapsto> PyStr ''Leave'']\<rparr>,
             \<lparr>page_content = ''Body'', metadata = [''name'' \<mapsto> PyNone, ''page_content'' \<mapsto> PyStr ''Shown'']\<rparr>])
        LLM_DOCUMENT_PROMPT ''|'' [])
     = Inr ''\<newline>---\<newline>SOURCE: Tax\<newline>Update the TD1 form.\<newline>---\<newline>|\<newline>---\<newline>SOURCE: Leave\<newline>Ask HR.\<newline>---\<newline>|\<newline>---\<newline>SOURCE: None\<newline>Shown\<newline>---\<newline>''
   \<and> fst (combine_documents
        ([\<lparr>page_content = ''Update the TD1 form.'', metadata = [''name'' \<mapsto> PyStr ''Tax'']\<rparr>]
          @ [\<lparr>page_content = [], metadata = [''name'' \<mapsto> PyStr ''Empty'']\<rparr>,
             \<lparr>page_content = ''Ask HR.'', metadata = [''name'' \<mapsto> PyStr ''Leave'']\<rparr>,
             \<lparr>page_content = ''Body'', metadata = [''name'' \<mapsto> PyNone, ''page_content'' \<mapsto> PyStr ''Shown'']\<rparr>])
        LLM_DOCUMENT_PROMPT ''|'' [])
     = Inr ''\<newline>---\<newline>SOURCE: Tax\<newline>Update the TD1 form.\<newline>---\<newline>|\<newline>---\<newline>SOURCE: Leave\<newline>Ask HR.\<newline>---\<newline>|\<newline>---\<newline>SOURCE: None\<newline>Shown\<newline>---\<newline>''"
proof -
  let ?tax = "\<lparr>page_content = ''Update the TD1 form.'', metadata = [''name'' \<mapsto> PyStr ''Tax'']\<rparr>"
  let ?onb = "\<lparr>page_content = ''Onboarding steps'', metadata = [''seq_num'' \<mapsto> PyInt 15]\<rparr>"
  let ?emp = "\<lparr>page_content = [], metadata = [''name'' \<mapsto> PyStr ''Empty'']\<rparr>"
  let ?lea = "\<lparr>page_content = ''Ask HR.'', metadata = [''name'' \<mapsto> PyStr ''Leave'']\<rparr>"
  let ?shd = "\<lparr>page_content = ''Body'', metadata = [''name'' \<mapsto> PyNone, ''page_content'' \<mapsto> PyStr ''Shown'']\<rparr>"
  let ?R = "''\<newline>---\<newline>SOURCE: Tax\<newline>Update the TD1 form.\<newline>---\<newline>|\<newline>---\<newline>SOURCE: Leave\<newline>Ask HR.\<newline>---\<newline>|\<newline>---\<newline>SOURCE: None\<newline>Shown\<newline>---\<newline>''"
  note t = combine_documents_valid_only
      [where d = ?onb and xs = "[?tax]" and ys = "[?emp, ?lea, ?shd]" and p = LLM_DOCUMENT_PROMPT
         and sep = "''|''" and out = "[]" and docs = "[?tax] @ ?onb # [?emp, ?lea, ?shd]"]
  have v: "\<not> passes_validation ?onb"
    by (simp add: passes_validation_def)
  from t have "fst (combine_documents ([?tax] @ ?onb # [?emp, ?lea, ?shd]) LLM_DOCUMENT_PROMPT ''|'' []) =
       Inr (case map (\<lambda>d. ''\<newline>---\<newline>SOURCE: '' @ py_str (the (metadata d ''name'')) @ ''\<newline>''
                        @ (case metadata d ''page_content'' of
                             None \<Rightarrow> page_content d | Some v \<Rightarrow> py_str v)
                        @ ''\<newline>---\<newline>'')
                   (filter passes_validation ([?tax] @ ?onb # [?emp, ?lea, ?shd])) of
              [] \<Rightarrow> []
            | t # us \<Rightarrow> t @ concat (map (\<lambda>u. ''|'' @ u) us))"
    by blast
  also have "\<dots> = Inr ?R"
    by (simp add: passes_validation_def)
  finally have 1: "fst (combine_documents ([?tax] @ ?onb # [?emp, ?lea, ?shd]) LLM_DOCUMENT_PROMPT ''|'' []) = Inr ?R" .
  from t v have "fst (combine_documents ([?tax] @ ?onb # [?emp, ?lea, ?shd]) LLM_DOCUMENT_PROMPT ''|'' [])
      = fst (combine_documents ([?tax] @ [?emp, ?lea, ?shd]) LLM_DOCUMENT_PROMPT ''|'' [])"
    by blast
  with 1 v show ?thesis by simp
qed

text \<open>
  Claim C5. Calling \<open>_combine_documents\<close> a second time with the same documents,
  template and separator, on the standard output the first call left, returns the same
  string; the result does not depend on what has been printed before.
\<close>

theorem combine_documents_deterministic:
  "fst (combine_documents docs p sep (snd (combine_documents docs p sep out)))
     = fst (combine_documents docs p sep out)
   \<and> fst (combine_documents docs p sep out1) = fst (combine_documents docs p sep out2)"
  by (simp add: combine_documents_fst)

theorem combine_documents_deterministic_witness:
  "fst (combine_documents
         [\<lparr>page_content = ''C'', metadata = [''seq_num'' \<mapsto> PyInt 14]\<rparr>,
          \<lparr>page_content = ''B'', metadata = [''name'' \<mapsto> PyStr ''Leave'']\<rparr>]
         LLM_DOCUMENT_PROMPT default_separator
         (snd (combine_documents
            [\<lparr>page_content = ''C'', metadata = [''seq_num'' \<mapsto> PyInt 14]\<rparr>,
             \<lparr>page_content = ''B'', metadata = [''name'' \<mapsto> PyStr ''Leave'']\<rparr>]
            LLM_DOCUMENT_PROMPT default_separator [])))
     = Inr ''\<newline>---\<newline>SOURCE: Leave\<newline>B\<newline>---\<newline>''
   \<and> snd (combine_documents
            [\<lparr>page_content = ''C'', metadata = [''seq_num'' \<mapsto> PyInt 14]\<rparr>,
             \<lparr>page_content = ''B'', metadata = [''name'' \<mapsto> PyStr ''Leave'']\<rparr>]
            LLM_DOCUMENT_PROMPT default_separator [])
     = [MissingName [''seq_num'' \<mapsto> PyInt 14]]"
proof -
  let ?docs = "[\<lparr>page_content = ''C'', metadata = [''seq_num'' \<mapsto> PyInt 14]\<rparr>,
          \<lparr>page_content = ''B'', metadata = [''name'' \<mapsto> PyStr ''Leave'']\<rparr>]"
  have 1: "combine_documents ?docs LLM_DOCUMENT_PROMPT default_separator []
      = (Inr ''\<newline>---\<newline>SOURCE: Leave\<newline>B\<newline>---\<newline>'', [MissingName [''seq_num'' \<mapsto> PyInt 14]])"
    by (simp add: combine_documents_def format_document_def LLM_DOCUMENT_PROMPT_def base_info_def
        map_add_def restrict_map_def)
  from combine_documents_deterministic [of ?docs LLM_DOCUMENT_PROMPT default_separator "[]"]
  have "fst (combine_documents ?docs LLM_DOCUMENT_PROMPT default_separator
          (snd (combine_documents ?docs LLM_DOCUMENT_PROMPT default_separator [])))
     = fst (combine_documents ?docs LLM_DOCUMENT_PROMPT default_separator [])"
    by blast
  then show ?thesis by (simp add: 1)
qed

text \<open>
  Claim C6. For the empty list, and for any list in which no document passes the two
  checks, \<open>_combine_documents\<close> returns the empty string; the chain then sends the
  language model the one human message of \<open>LLM_CONTEXT_PROMPT\<close> as a string, with the
  whole text of the template: nothing stands between \<open>context: \<close> and the end of that
  line, and the question follows.
\<close>

theorem empty_context_block:
  \<open>fst (combine_documents [] p sep out) = Inr []
   \<and> (list_all (\<lambda>d. \<not> passes_validation d) docs \<longrightarrow>
        fst (combine_documents docs p sep out) = Inr []
        \<and> (retriever question = Inr docs \<longrightarrow>
             fst (chain retriever llm question out) =
               llm (''Human: You are an assistant for question-answering tasks. Use the following pieces of retrieved context to answer the question. If you don't know the answer, just say that you don't know. Be as verbose and educational in your response as possible. \<newline>    \<newline>    context: ''
                    @ ''\<newline>    Question: "'' @ question @ ''"\<newline>    Answer:\<newline>    '')))\<close>
proof (intro conjI impI)
  show "fst (combine_documents [] p sep out) = Inr []"
    by (simp add: combine_documents_def)
next
  assume "list_all (\<lambda>d. \<not> passes_validation d) docs"
  then show "fst (combine_documents docs p sep out) = Inr []"
    by (rule no_valid_document)
next
  assume v: "list_all (\<lambda>d. \<not> passes_validation d) docs" and r: "retriever question = Inr docs"
  obtain out' where "combine_documents docs LLM_DOCUMENT_PROMPT default_separator out = (Inr [], out')"
    using no_valid_document [OF v, of LLM_DOCUMENT_PROMPT default_separator out]
    by (cases "combine_documents docs LLM_DOCUMENT_PROMPT default_separator out") simp
  moreover note format_context_prompt [of "[]" question]
  ultimately show \<open>fst (chain retriever llm question out) =
      llm (''Human: You are an assistant for question-answering tasks. Use the following pieces of retrieved context to answer the question. If you don't know the answer, just say that you don't know. Be as verbose and educational in your response as possible. \<newline>    \<newline>    context: ''
             @ ''\<newline>    Question: "'' @ question @ ''"\<newline>    Answer:\<newline>    '')\<close>
    by (auto simp: chain_def r split: sum.splits)
qed

theorem empty_context_block_witness:
  \<open>list_all (\<lambda>d. \<not> passes_validation d)
     [\<lparr>page_content = ''Onboarding steps'', metadata = [''seq_num'' \<mapsto> PyInt 15]\<rparr>]
   \<and> fst (chain (\<lambda>q. Inr [\<lparr>page_content = ''Onboarding steps'', metadata = [''seq_num'' \<mapsto> PyInt 15]\<rparr>])
        (\<lambda>prompt. Inr prompt) ''tax?'' []) =
      Inr ''Human: You are an assistant for question-answering tasks. Use the following pieces of retrieved context to answer the question. If you don't know the answer, just say that you don't know. Be as verbose and educational in your response as possible. \<newline>    \<newline>    context: \<newline>    Question: "tax?"\<newline>    Answer:\<newline>    ''\<close>
proof -
  let ?onb = "\<lparr>page_content = ''Onboarding steps'', metadata = [''seq_num'' \<mapsto> PyInt 15]\<rparr>"
  have v: "list_all (\<lambda>d. \<not> passes_validation d) [?onb]"
    by (simp add: passes_validation_def)
  have r: "(\<lambda>q::string. (Inr [?onb] :: error + Document list)) ''tax?'' = Inr [?onb]"
    by simp
  show ?thesis
    using v r empty_context_block
      [where docs = "[?onb]" and retriever = "\<lambda>q. Inr [?onb]" and question = "''tax?''"
         and llm = "\<lambda>prompt. Inr prompt" and out = "[]" and p = "[]" and sep = "[]"]
    by simp
qed

text \<open>
  Claim C9, as stated, fails: \<open>format_document\<close> lets a metadata entry named
  \<open>page_content\<close> take the place of the body, so two documents with the same body and
  the same \<open>name\<close> give different context blocks when one of them has such an entry.
\<close>

theorem context_noninterference_counterexample:
  "list_all2 same_name_and_content
     [\<lparr>page_content = ''A'', metadata = [''name'' \<mapsto> PyStr ''n'']\<rparr>]
     [\<lparr>page_content = ''A'', metadata = [''name'' \<mapsto> PyStr ''n'', ''page_content'' \<mapsto> PyStr ''B'']\<rparr>]
   \<and> fst (combine_documents [\<lparr>page_content = ''A'', metadata = [''name'' \<mapsto> PyStr ''n'']\<rparr>]
          LLM_DOCUMENT_PROMPT default_separator [])
       = Inr ''\<newline>---\<newline>SOURCE: n\<newline>A\<newline>---\<newline>''
   \<and> fst (combine_documents
          [\<lparr>page_content = ''A'', metadata = [''name'' \<mapsto> PyStr ''n'', ''page_content'' \<mapsto> PyStr ''B'']\<rparr>]
          LLM_DOCUMENT_PROMPT default_separator [])
       = Inr ''\<newline>---\<newline>SOURCE: n\<newline>B\<newline>---\<newline>''
   \<and> fst (combine_documents [\<lparr>page_content = ''A'', metadata = [''name'' \<mapsto> PyStr ''n'']\<rparr>]
          LLM_DOCUMENT_PROMPT default_separator [])
       \<noteq> fst (combine_documents
          [\<lparr>page_content = ''A'', metadata = [''name'' \<mapsto> PyStr ''n'', ''page_content'' \<mapsto> PyStr ''B'']\<rparr>]
          LLM_DOCUMENT_PROMPT default_separator [])"
  by (simp add: same_name_and_content_def combine_documents_def format_document_def
      LLM_DOCUMENT_PROMPT_def base_info_def map_add_def restrict_map_def)

text \<open>
  Claim C9, amended. Two lists of documents of the same length that agree, document by
  document, on the body, on the entry \<open>name\<close> and on the entry \<open>page_content\<close> of the
  metadata (present or not, and its value) give the same context block with
  \<open>LLM_DOCUMENT_PROMPT\<close>, whatever the other metadata entries and the standard output
  are.
\<close>

theorem context_noninterference:
  "list_all2 (\<lambda>a b. same_name_and_content a b
       \<and> metadata a ''page_content'' = metadata b ''page_content'') xs ys
   \<Longrightarrow> fst (combine_documents xs LLM_DOCUMENT_PROMPT sep out1)
     = fst (combine_documents ys LLM_DOCUMENT_PROMPT sep out2)"
  by (simp add: combine_default agree_valid_texts)

theorem context_noninterference_witness:
  "list_all2 (\<lambda>a b. same_name_and_content a b
       \<and> metadata a ''page_content'' = metadata b ''page_content'')
     [\<lparr>page_content = ''A'', metadata = [''name'' \<mapsto> PyStr ''n'', ''url'' \<mapsto> PyStr ''u1'']\<rparr>,
      \<lparr>page_content = ''C'', metadata = [''seq_num'' \<mapsto> PyInt 14]\<rparr>]
     [\<lparr>page_content = ''A'', metadata = [''name'' \<mapsto> PyStr ''n'', ''summary'' \<mapsto> PyStr ''s2'']\<rparr>,
      \<lparr>page_content = ''C'', metadata = [''seq_num'' \<mapsto> PyInt 15]\<rparr>]
   \<and> fst (combine_documents
        [\<lparr>page_content = ''A'', metadata = [''name'' \<mapsto> PyStr ''n'', ''url'' \<mapsto> PyStr ''u1'']\<rparr>,
         \<lparr>page_content = ''C'', metadata = [''seq_num'' \<mapsto> PyInt 14]\<rparr>]
        LLM_DOCUMENT_PROMPT default_separator [])
     = fst (combine_documents
        [\<lparr>page_content = ''A'', metadata = [''name'' \<mapsto> PyStr ''n'', ''summary'' \<mapsto> PyStr ''s2'']\<rparr>,
         \<lparr>page_content = ''C'', metadata = [''seq_num'' \<mapsto> PyInt 15]\<rparr>]
        LLM_DOCUMENT_PROMPT default_separator [MissingName Map.empty])"
proof -
  let ?xs = "[\<lparr>page_content = ''A'', metadata = [''name'' \<mapsto> PyStr ''n'', ''url'' \<mapsto> PyStr ''u1'']\<rparr>,
      \<lparr>page_content = ''C'', metadata = [''seq_num'' \<mapsto> PyInt 14]\<rparr>]"
  let ?ys = "[\<lparr>page_content = ''A'', metadata = [''name'' \<mapsto> PyStr ''n'', ''summary'' \<mapsto> PyStr ''s2'']\<rparr>,
      \<lparr>page_content = ''C'', metadata = [''seq_num'' \<mapsto> PyInt 15]\<rparr>]"
  have h: "list_all2 (\<lambda>a b. same_name_and_content a b
       \<and> metadata a ''page_content'' = metadata b ''page_content'') ?xs ?ys"
    by (simp add: same_name_and_content_def)
  from h context_noninterference [OF h, of default_separator "[]" "[MissingName Map.empty]"]
  show ?thesis by simp
qed

text \<open>
  Claim C10. When two lists of documents each have a document that passes the checks and
  \<open>_combine_documents\<close> returns a string for each, the result for the concatenated
  list is the first string, the separator, the second string. A result is the join of
  one string for each document that passes, so its length is the sum of their lengths
  plus one separator less than there are such documents. With the default template and
  separator, the result of a list with a document that passes neither starts nor ends
  with the separator.
\<close>

theorem combine_documents_join_homomorphism:
  "((\<exists>d\<in>set xs. passes_validation d) \<and> (\<exists>d\<in>set ys. passes_validation d)
      \<and> fst (combine_documents xs p sep out1) = Inr a
      \<and> fst (combine_documents ys p sep out2) = Inr b
     \<longrightarrow> fst (combine_documents (xs @ ys) p sep out3) = Inr (a @ sep @ b))
   \<and> (fst (combine_documents docs p sep out) = Inr s \<longrightarrow>
        (\<exists>ss. first_error (map (\<lambda>d. format_document d p) (filter passes_validation docs)) = Inr ss
           \<and> s = join sep ss \<and> length ss = length (filter passes_validation docs)
           \<and> length s = sum_list (map length ss) + (length ss - 1) * length sep))
   \<and> ((\<exists>d\<in>set docs. passes_validation d) \<longrightarrow>
        (\<exists>t. fst (combine_documents docs LLM_DOCUMENT_PROMPT default_separator out) = Inr t
           \<and> \<not> prefix default_separator t \<and> \<not> suffix default_separator t))"
proof (intro conjI impI)
  assume "(\<exists>d\<in>set xs. passes_validation d) \<and> (\<exists>d\<in>set ys. passes_validation d)
      \<and> fst (combine_documents xs p sep out1) = Inr a
      \<and> fst (combine_documents ys p sep out2) = Inr b"
  then show "fst (combine_documents (xs @ ys) p sep out3) = Inr (a @ sep @ b)"
    using append_law [of xs ys p sep out1 a out2 b out3] by blast
next
  assume "fst (combine_documents docs p sep out) = Inr s"
  then show "\<exists>ss. first_error (map (\<lambda>d. format_document d p) (filter passes_validation docs)) = Inr ss
           \<and> s = join sep ss \<and> length ss = length (filter passes_validation docs)
           \<and> length s = sum_list (map length ss) + (length ss - 1) * length sep"
    by (rule pieces_law)
next
  assume "\<exists>d\<in>set docs. passes_validation d"
  then have ne: "filter passes_validation docs \<noteq> []"
    by (simp add: filter_empty_conv)
  show "\<exists>t. fst (combine_documents docs LLM_DOCUMENT_PROMPT default_separator out) = Inr t
           \<and> \<not> prefix default_separator t \<and> \<not> suffix default_separator t"
    using no_leading_separator [OF ne] no_trailing_separator [OF ne]
    by (simp add: combine_default)
qed

theorem combine_documents_join_homomorphism_witness:
  "passes_validation \<lparr>page_content = ''A'', metadata = [''name'' \<mapsto> PyStr ''Tax'']\<rparr>
   \<and> passes_validation \<lparr>page_content = ''B'', metadata = [''name'' \<mapsto> PyStr ''Leave'']\<rparr>
   \<and> fst (combine_documents [\<lparr>page_content = ''A'', metadata = [''name'' \<mapsto> PyStr ''Tax'']\<rparr>]
          LLM_DOCUMENT_PROMPT default_separator [])
       = Inr ''\<newline>---\<newline>SOURCE: Tax\<newline>A\<newline>---\<newline>''
   \<and> fst (combine_documents
          [\<lparr>page_content = ''C'', metadata = [''seq_num'' \<mapsto> PyInt 14]\<rparr>,
           \<lparr>page_content = ''B'', metadata = [''name'' \<mapsto> PyStr ''Leave'']\<rparr>]
          LLM_DOCUMENT_PROMPT default_separator [])
       = Inr ''\<newline>---\<newline>SOURCE: Leave\<newline>B\<newline>---\<newline>''
   \<and> fst (combine_documents
          ([\<lparr>page_content = ''A'', metadata = [''name'' \<mapsto> PyStr ''Tax'']\<rparr>]
           @ [\<lparr>page_content = ''C'', metadata = [''seq_num'' \<mapsto> PyInt 14]\<rparr>,
              \<lparr>page_content = ''B'', metadata = [''name'' \<mapsto> PyStr ''Leave'']\<rparr>])
          LLM_DOCUMENT_PROMPT default_separator [])
       = Inr (''\<newline>---\<newline>SOURCE: Tax\<newline>A\<newline>---\<newline>'' @ default_separator
              @ ''\<newline>---\<newline>SOURCE: Leave\<newline>B\<newline>---\<newline>'')
   \<and> length (''\<newline>---\<newline>SOURCE: Tax\<newline>A\<newline>---\<newline>'' @ default_separator
              @ ''\<newline>---\<newline>SOURCE: Leave\<newline>B\<newline>---\<newline>'')
       = length ''\<newline>---\<newline>SOURCE: Tax\<newline>A\<newline>---\<newline>''
         + length ''\<newline>---\<newline>SOURCE: Leave\<newline>B\<newline>---\<newline>''
         + (2 - 1) * length default_separator
   \<and> \<not> prefix default_separator
         (''\<newline>---\<newline>SOURCE: Tax\<newline>A\<newline>---\<newline>'' @ default_separator
              @ ''\<newline>---\<newline>SOURCE: Leave\<newline>B\<newline>---\<newline>'')
   \<and> \<not> suffix default_separator
         (''\<newline>---\<newline>SOURCE: Tax\<newline>A\<newline>---\<newline>'' @ default_separator
              @ ''\<newline>---\<newline>SOURCE: Leave\<newline>B\<newline>---\<newline>'')"
proof -
  let ?tax = "\<lparr>page_content = ''A'', metadata = [''name'' \<mapsto> PyStr ''Tax'']\<rparr>"
  let ?onb = "\<lparr>page_content = ''C'', metadata = [''seq_num'' \<mapsto> PyInt 14]\<rparr>"
  let ?lea = "\<lparr>page_content = ''B'', metadata = [''name'' \<mapsto> PyStr ''Leave'']\<rparr>"
  let ?A = "''\<newline>---\<newline>SOURCE: Tax\<newline>A\<newline>---\<newline>''"
  let ?B = "''\<newline>---\<newline>SOURCE: Leave\<newline>B\<newline>---\<newline>''"
  let ?P = LLM_DOCUMENT_PROMPT
  let ?S = "?A @ default_separator @ ?B"
  have v: "passes_validation ?tax" "passes_validation ?lea"
    by (simp_all add: passes_validation_def)
  have a: "fst (combine_documents [?tax] ?P default_separator []) = Inr ?A"
    by (simp add: combine_documents_def format_document_def LLM_DOCUMENT_PROMPT_def base_info_def
        map_add_def restrict_map_def)
  have b: "fst (combine_documents [?onb, ?lea] ?P default_separator []) = Inr ?B"
    by (simp add: combine_documents_def format_document_def LLM_DOCUMENT_PROMPT_def base_info_def
        map_add_def restrict_map_def)
  have ex: "\<exists>d\<in>set [?tax]. passes_validation d" "\<exists>d\<in>set [?onb, ?lea]. passes_validation d"
    "\<exists>d\<in>set ([?tax] @ [?onb, ?lea]). passes_validation d"
    using v by simp_all
  note t = combine_documents_join_homomorphism
    [where xs = "[?tax]" and ys = "[?onb, ?lea]" and p = ?P and sep = default_separator
       and ?out1.0 = "[]" and ?out2.0 = "[]" and ?out3.0 = "[]" and a = ?A and b = ?B
       and docs = "[?tax] @ [?onb, ?lea]" and out = "[]" and s = ?S]
  from t ex a b have c1: "fst (combine_documents ([?tax] @ [?onb, ?lea]) ?P default_separator []) = Inr ?S"
    by blast
  from t c1 obtain ss where
    ss: "first_error (map (\<lambda>d. format_document d ?P) (filter passes_validation ([?tax] @ [?onb, ?lea]))) = Inr ss"
      "length ?S = sum_list (map length ss) + (length ss - 1) * length default_separator"
    by blast
  from ss(1) have "ss = [?A, ?B]"
    by (simp add: passes_validation_def format_document_def LLM_DOCUMENT_PROMPT_def base_info_def
        map_add_def restrict_map_def)
  with ss(2) have c2: "length ?S = length ?A + length ?B + (2 - 1) * length default_separator"
    by simp
  from t ex(3) c1 have c3: "\<not> prefix default_separator ?S \<and> \<not> suffix default_separator ?S"
    by auto
  from v a b c1 c2 c3 show ?thesis by blast
qed

end
